theory Spec2Isabelle
  imports Complex_Main
begin

section \<open>Shared types\<close>

text \<open>
  The air-hockey match of \<^verbatim>\<open>class World\<close>. JavaScript numbers are modelled as
  reals: every constant the match computes with (1200, 600, 1.25, 40, ...) and every
  quotient formed from them is exact in binary floating point.
\<close>

type_synonym Id = string

type_synonym Vector2D = "real \<times> real"

text \<open>Objects are compared by reference in the source; a p2 body is an address.\<close>

type_synonym body_ref = nat

text \<open>Reading a property of \<^verbatim>\<open>undefined\<close> throws a TypeError.\<close>

datatype error = TypeError

datatype level = Info | Debug

record Body =
  position :: Vector2D
  velocity :: Vector2D

datatype Side = SideLeft | SideRight

text \<open>
  A \<^verbatim>\<open>Team\<close> object: \<open>team_ref\<close> is its identity (\<^verbatim>\<open>===\<close> on two teams compares
  references, so two teams of the same side built by two \<^verbatim>\<open>new Team\<close> differ).
\<close>

record Team =
  team_ref :: nat
  TeamSide :: Side

record Player =
  socketId :: Id
  color :: int
  team :: Team
  isReady :: bool
  direction :: Vector2D
  body :: body_ref

record Ball =
  ball_body :: body_ref

text \<open>
  The four obstacles of a goal; \<^verbatim>\<open>back\<close>, \<^verbatim>\<open>bottom\<close> and \<^verbatim>\<open>top\<close> are named
  \<open>back_wall\<close>, \<open>bottom_post\<close> and \<open>top_post\<close> here, \<^verbatim>\<open>goal\<close> is the sensor.
\<close>

record IGoal =
  back_wall :: body_ref
  bottom_post :: body_ref
  top_post :: body_ref
  goal :: body_ref

record ITeams =
  teams_teamLeft :: Team
  teams_teamRight :: Team

record IGoalEvent =
  allTeams :: ITeams
  teamThatScored :: Team

text \<open>
  The constants of \<^verbatim>\<open>Player\<close> and \<^verbatim>\<open>Ball\<close> that \<^verbatim>\<open>World\<close> and the entity methods
  read; their declarations are not part of the sources at hand, so they are parameters.
  So is what \<^verbatim>\<open>Ball.setPosition\<close> leaves of the velocity of the ball, as a function
  of the velocity before the call: neither the sources at hand nor the specification
  say it.
\<close>

record Consts =
  Player_DIAMETER :: real
  Player_SPEED :: real
  Ball_MAX_VELOCITY :: real
  Ball_setPosition_velocity :: "Vector2D \<Rightarrow> Vector2D"

text \<open>
  The calls that \<^verbatim>\<open>World\<close> makes in a tick, each with its receiver or its arguments:
  \<^verbatim>\<open>Player.onUpdate\<close>, \<^verbatim>\<open>Ball.onUpdate\<close> and
  \<^verbatim>\<open>p2World.step(dt, timeSinceLastCalled, maxSubSteps)\<close>.
\<close>

datatype Invocation = OnUpdatePlayer Player | OnUpdateBall | Step real real real

text \<open>
  The objects outside \<^verbatim>\<open>World\<close>: the bodies by address, the next free address, and
  the journal of the calls above in the order they were made.
\<close>

record Heap =
  cells :: "body_ref \<Rightarrow> Body"
  next_ref :: nat
  journal :: "Invocation list"

section \<open>Collaborators\<close>

subsection \<open>Bodies\<close>

text \<open>\<^verbatim>\<open>new p2.Body({ position })\<close>: a fresh object, at rest.\<close>

definition new_Body :: "Vector2D \<Rightarrow> Heap \<Rightarrow> body_ref \<times> Heap" where
  "new_Body pos h =
     (next_ref h,
      h\<lparr>cells := (cells h)(next_ref h := \<lparr>position = pos, velocity = (0, 0)\<rparr>),
        next_ref := Suc (next_ref h)\<rparr>)"

definition set_position :: "body_ref \<Rightarrow> Vector2D \<Rightarrow> Heap \<Rightarrow> Heap" where
  "set_position r pos h = h\<lparr>cells := (cells h)(r := (cells h r)\<lparr>position := pos\<rparr>)\<rparr>"

definition set_velocity :: "body_ref \<Rightarrow> Vector2D \<Rightarrow> Heap \<Rightarrow> Heap" where
  "set_velocity r v h = h\<lparr>cells := (cells h)(r := (cells h r)\<lparr>velocity := v\<rparr>)\<rparr>"

subsection \<open>The physics world\<close>

text \<open>
  Modelled from the spec: the rigid-body engine (package p2) is an external collaborator.
  The world owns a list of bodies; \<^verbatim>\<open>addBody\<close> appends one and \<^verbatim>\<open>clear\<close> releases all
  of them.
\<close>

record P2World =
  bodies :: "body_ref list"

definition new_P2World :: P2World where
  "new_P2World = \<lparr>bodies = []\<rparr>"

definition addBody :: "body_ref \<Rightarrow> P2World \<Rightarrow> P2World" where
  "addBody r pw = pw\<lparr>bodies := bodies pw @ [r]\<rparr>"

definition P2World_clear :: "P2World \<Rightarrow> P2World" where
  "P2World_clear pw = pw\<lparr>bodies := []\<rparr>"

subsection \<open>The event channel\<close>

text \<open>
  Modelled from the spec: \<^verbatim>\<open>TypedEvent\<close> (in \<^verbatim>\<open>../common\<close>) supports \<^verbatim>\<open>on(handler)\<close>,
  \<^verbatim>\<open>emit(event)\<close>, which fires all registered handlers synchronously in registration
  order, and \<^verbatim>\<open>removeAllListeners()\<close>. Handlers are closures of the session layer;
  \<open>notified\<close> records which handler was called with which event, \<open>emitted\<close> every
  call of \<^verbatim>\<open>emit\<close>.
\<close>

record TypedEvent =
  listeners :: "nat list"
  emitted :: "IGoalEvent list"
  notified :: "(nat \<times> IGoalEvent) list"

definition new_TypedEvent :: TypedEvent where
  "new_TypedEvent = \<lparr>listeners = [], emitted = [], notified = []\<rparr>"

definition TypedEvent_on :: "nat \<Rightarrow> TypedEvent \<Rightarrow> TypedEvent" where
  "TypedEvent_on l te = te\<lparr>listeners := listeners te @ [l]\<rparr>"

definition emit :: "IGoalEvent \<Rightarrow> TypedEvent \<Rightarrow> TypedEvent" where
  "emit e te =
     te\<lparr>emitted := emitted te @ [e],
        notified := notified te @ map (\<lambda>l. (l, e)) (listeners te)\<rparr>"

definition removeAllListeners :: "TypedEvent \<Rightarrow> TypedEvent" where
  "removeAllListeners te = te\<lparr>listeners := []\<rparr>"

subsection \<open>Player and Ball\<close>

text \<open>
  Modelled from the spec: the constructor of \<^verbatim>\<open>Player\<close> (in \<^verbatim>\<open>./player\<close>) binds the
  player to a new body of the physics world; the readiness flag starts false and no
  direction is pending.
\<close>

definition new_Player ::
  "Id \<Rightarrow> int \<Rightarrow> Team \<Rightarrow> Heap \<Rightarrow> P2World \<Rightarrow> Player \<times> Heap \<times> P2World" where
  "new_Player sid col t h pw =
     (let (r, h') = new_Body (0, 0) h
      in (\<lparr>socketId = sid, color = col, team = t, isReady = False,
           direction = (0, 0), body = r\<rparr>, h', addBody r pw))"

text \<open>
  Modelled from the spec: \<^verbatim>\<open>Player.setDirection\<close> stores the desired movement; it is
  applied to the velocity on the next pre-step update, not immediately.
\<close>

definition setDirection :: "Vector2D \<Rightarrow> Player \<Rightarrow> Player" where
  "setDirection d p = p\<lparr>direction := d\<rparr>"

text \<open>
  Modelled from the spec: \<^verbatim>\<open>Player.onUpdate\<close> applies the pending direction to the
  velocity of the player's body, at the fixed speed of players. The call goes into the
  journal.
\<close>

definition Player_onUpdate :: "Consts \<Rightarrow> Player \<Rightarrow> Heap \<Rightarrow> Heap" where
  "Player_onUpdate c p h =
     (set_velocity (body p)
        (fst (direction p) * Player_SPEED c, snd (direction p) * Player_SPEED c) h)
     \<lparr>journal := journal h @ [OnUpdatePlayer p]\<rparr>"

text \<open>
  Modelled from the spec: \<^verbatim>\<open>Player.setPosition\<close> teleports the body: it overwrites
  the position and zeroes the velocity.
\<close>

definition Player_setPosition :: "Player \<Rightarrow> Vector2D \<Rightarrow> Heap \<Rightarrow> Heap" where
  "Player_setPosition p pos h = set_velocity (body p) (0, 0) (set_position (body p) pos h)"

text \<open>Modelled from the spec: the constructor of \<^verbatim>\<open>Ball\<close> (in \<^verbatim>\<open>./ball\<close>).\<close>

definition new_Ball :: "Heap \<Rightarrow> P2World \<Rightarrow> Ball \<times> Heap \<times> P2World" where
  "new_Ball h pw =
     (let (r, h') = new_Body (0, 0) h in (\<lparr>ball_body = r\<rparr>, h', addBody r pw))"

text \<open>
  Modelled from the spec: \<^verbatim>\<open>Ball.setPosition\<close> puts the ball at the given point (a
  reset re-centres the ball with it). What it leaves of the velocity is the parameter
  \<open>Ball_setPosition_velocity\<close>.
\<close>

definition Ball_setPosition :: "Consts \<Rightarrow> Ball \<Rightarrow> Vector2D \<Rightarrow> Heap \<Rightarrow> Heap" where
  "Ball_setPosition c b pos h =
     set_velocity (ball_body b)
       (Ball_setPosition_velocity c (velocity (cells h (ball_body b))))
       (set_position (ball_body b) pos h)"

text \<open>
  Modelled from the spec: \<^verbatim>\<open>Ball.resetVelocity(signedSpeed?)\<close> sets the velocity to
  zero, or to a horizontal impulse of the given signed speed when one is supplied.
\<close>

definition resetVelocity :: "Ball \<Rightarrow> real option \<Rightarrow> Heap \<Rightarrow> Heap" where
  "resetVelocity b signedSpeed h =
     set_velocity (ball_body b)
       (case signedSpeed of None \<Rightarrow> (0, 0) | Some s \<Rightarrow> (s, 0)) h"

text \<open>
  Modelled from the spec: \<^verbatim>\<open>Ball.onUpdate\<close> clamps the velocity to the maximum
  speed of the ball, keeping its direction. The call goes into the journal.
\<close>

definition Ball_onUpdate :: "Consts \<Rightarrow> Ball \<Rightarrow> Heap \<Rightarrow> Heap" where
  "Ball_onUpdate c b h =
     (let (vx, vy) = velocity (cells h (ball_body b));
          s2 = vx * vx + vy * vy;
          m = Ball_MAX_VELOCITY c
      in if s2 > m * m
         then set_velocity (ball_body b) (vx * m / sqrt s2, vy * m / sqrt s2) h
         else h)
     \<lparr>journal := journal h @ [OnUpdateBall]\<rparr>"

section \<open>The match\<close>

record World =
  goalEmitter :: TypedEvent
  goals :: "IGoal list"
  p2World :: P2World
  players :: "Player list"
  ball :: Ball
  teamLeft :: Team
  teamRight :: Team
  store :: Heap
  logger :: "(level \<times> string) list"

definition BALL_INIT_VELOCITY :: real where
  "BALL_INIT_VELOCITY = 40"

definition GAME_SIZE_width :: real where
  "GAME_SIZE_width = 1200"

definition GAME_SIZE_height :: real where
  "GAME_SIZE_height = 600"

text \<open>\<^verbatim>\<open>xs[i].m(...)\<close>: past the end of the array the receiver is \<^verbatim>\<open>undefined\<close>.\<close>

definition element :: "'a list \<Rightarrow> nat \<Rightarrow> error + 'a" where
  "element xs i = (if i < length xs then Inr (xs ! i) else Inl TypeError)"

text \<open>
  \<^verbatim>\<open>xs.find(P)\<close> returns the first object that satisfies \<open>P\<close>; a method called on
  it mutates that element of the array.
\<close>

fun update_found :: "('a \<Rightarrow> bool) \<Rightarrow> ('a \<Rightarrow> 'a) \<Rightarrow> 'a list \<Rightarrow> 'a list" where
  "update_found P f [] = []"
| "update_found P f (x # xs) = (if P x then f x # xs else x # update_found P f xs)"

definition getTeams :: "World \<Rightarrow> ITeams" where
  "getTeams w = \<lparr>teams_teamLeft = teamLeft w, teams_teamRight = teamRight w\<rparr>"

text \<open>The four half planes of the arena (angles and shapes are not modelled).\<close>

definition addWorldBounds :: "Heap \<Rightarrow> P2World \<Rightarrow> Heap \<times> P2World" where
  "addWorldBounds h pw =
     (let (floor_b, h1) = new_Body (0, 0) h;
          pw1 = addBody floor_b pw;
          (ceiling_b, h2) = new_Body (0, GAME_SIZE_height) h1;
          pw2 = addBody ceiling_b pw1;
          (right_b, h3) = new_Body (GAME_SIZE_width, 0) h2;
          pw3 = addBody right_b pw2;
          (left_b, h4) = new_Body (0, 0) h3;
          pw4 = addBody left_b pw3
      in (h4, pw4))"

definition addGoals :: "Team \<Rightarrow> Heap \<Rightarrow> P2World \<Rightarrow> IGoal \<times> Heap \<times> P2World" where
  "addGoals t h pw =
     (let goalWidth = (20 :: real);
          goalHeight = (125 :: real);
          goalNetSize = (30 :: real);
          x0 = GAME_SIZE_width / 10;
          x = (if TeamSide t = SideRight then GAME_SIZE_width - x0 else x0);
          (top_b, h1) = new_Body (0, 0) h;
          h2 = set_position top_b
                 (x, GAME_SIZE_height / 2 - goalHeight / 2 - goalNetSize / 2) h1;
          (bottom_b, h3) = new_Body (0, 0) h2;
          h4 = set_position bottom_b
                 (x, GAME_SIZE_height / 2 + goalHeight / 2 + goalNetSize / 2) h3;
          (back_b, h5) = new_Body (0, 0) h4;
          offset = goalWidth / 2 + goalNetSize / 2;
          h6 = set_position back_b
                 (x - (if TeamSide t = SideLeft then offset else - offset),
                  GAME_SIZE_height / 2) h5;
          pw1 = addBody back_b (addBody bottom_b (addBody top_b pw));
          (goal_b, h7) = new_Body (0, 0) h6;
          goalBoxWidth = (4 :: real);
          goalOffset = goalBoxWidth + 4;
          h8 = set_position goal_b
                 (x - (if TeamSide t = SideLeft then goalOffset else - goalOffset),
                  GAME_SIZE_height / 2) h7;
          pw2 = addBody goal_b pw1
      in (\<lparr>back_wall = back_b, bottom_post = bottom_b, top_post = top_b, goal = goal_b\<rparr>,
          h8, pw2))"

definition resetPositions :: "Consts \<Rightarrow> Team option \<Rightarrow> World \<Rightarrow> error + World" where
  "resetPositions c scoreTeam w =
     (case element (players w) 0 of
        Inl e \<Rightarrow> Inl e
      | Inr p0 \<Rightarrow>
          (let w1 = w\<lparr>store := Player_setPosition p0
                      (GAME_SIZE_width / 4, GAME_SIZE_height / 2) (store w)\<rparr>
           in case element (players w1) 1 of
                Inl e \<Rightarrow> Inl e
              | Inr p1 \<Rightarrow>
                  (let w2 = w1\<lparr>store := Player_setPosition p1
                              (GAME_SIZE_width / 1.25 - Player_DIAMETER c,
                               GAME_SIZE_height / 2) (store w1)\<rparr>;
                       w3 = w2\<lparr>store := Ball_setPosition c (ball w2)
                              (GAME_SIZE_width / 2, GAME_SIZE_height / 2) (store w2)\<rparr>
                   in case scoreTeam of
                        None \<Rightarrow> Inr w3
                      | Some t \<Rightarrow>
                          Inr (w3\<lparr>store := resetVelocity (ball w3)
                                 (Some (if t = teamLeft w3 then BALL_INIT_VELOCITY
                                        else - BALL_INIT_VELOCITY)) (store w3)\<rparr>))))"

text \<open>
  The constructor. The contact listener it registers last is \<open>onBeginContact_listener\<close>
  below; nothing in the match removes it from the physics world.
\<close>

definition World_constructor :: "Consts \<Rightarrow> Id \<Rightarrow> Id \<Rightarrow> error + World" where
  "World_constructor c player1Id player2Id =
     (let (h1, pw1) = addWorldBounds \<lparr>cells = (\<lambda>_. \<lparr>position = (0, 0), velocity = (0, 0)\<rparr>),
                                      next_ref = 0, journal = []\<rparr> new_P2World;
          tl = \<lparr>team_ref = 0, TeamSide = SideLeft\<rparr>;
          tr = \<lparr>team_ref = 1, TeamSide = SideRight\<rparr>;
          (player1, h2, pw2) = new_Player player1Id 0xff0000 tl h1 pw1;
          (player2, h3, pw3) = new_Player player2Id 0x0000ff tr h2 pw2;
          (b, h4, pw4) = new_Ball h3 pw3;
          (goal1, h5, pw5) = addGoals tl h4 pw4;
          (goal2, h6, pw6) = addGoals tr h5 pw5
      in resetPositions c None
           \<lparr>goalEmitter = new_TypedEvent, goals = [goal1, goal2], p2World = pw6,
            players = [player1, player2], ball = b, teamLeft = tl, teamRight = tr,
            store = h6, logger = []\<rparr>)"

definition clear :: "World \<Rightarrow> World" where
  "clear w = w\<lparr>p2World := P2World_clear (p2World w),
              goalEmitter := removeAllListeners (goalEmitter w)\<rparr>"

definition reset :: "Consts \<Rightarrow> Team option \<Rightarrow> World \<Rightarrow> error + World" where
  "reset c scorer w = resetPositions c scorer w"

definition movePlayer :: "Id \<Rightarrow> Vector2D \<Rightarrow> World \<Rightarrow> World" where
  "movePlayer sid data_direction w =
     (case find (\<lambda>p. socketId p = sid) (players w) of
        None \<Rightarrow>
          w\<lparr>logger := logger w @ [(Info, ''movePlayer - got info about player not in game.'')]\<rparr>
      | Some player \<Rightarrow>
          w\<lparr>players := update_found (\<lambda>p. socketId p = sid) (setDirection data_direction)
                         (players w)\<rparr>)"

definition setPlayerReady :: "Id \<Rightarrow> World \<Rightarrow> bool \<times> World" where
  "setPlayerReady sid w =
     (case find (\<lambda>p. socketId p = sid) (players w) of
        None \<Rightarrow>
          (False,
           w\<lparr>logger := logger w @
                [(Info, ''setPlayerReady - got info about player not in game.'')]\<rparr>)
      | Some player \<Rightarrow>
          (let w1 = w\<lparr>players := update_found (\<lambda>p. socketId p = sid)
                                   (\<lambda>p. p\<lparr>isReady := True\<rparr>) (players w)\<rparr>
           in (list_all isReady (players w1), w1)))"

subsection \<open>The contact listener\<close>

text \<open>
  \<^verbatim>\<open>onBeginContact\<close> registers one listener for \<^verbatim>\<open>beginContact\<close>;
  \<open>onBeginContact_listener\<close> is that listener, applied to the two bodies of the event,
  and \<open>contact_team\<close> is its local variable \<^verbatim>\<open>team\<close> once both tests have run.
\<close>

definition contact_team :: "body_ref \<Rightarrow> body_ref \<Rightarrow> World \<Rightarrow> error + Team option" where
  "contact_team bodyA bodyB w =
     (case element (goals w) 0 of
        Inl e \<Rightarrow> Inl e
      | Inr g0 \<Rightarrow>
          if bodyA = goal g0 \<or> bodyB = goal g0 then Inr (Some (teamRight w))
          else (case element (goals w) 1 of
                  Inl e \<Rightarrow> Inl e
                | Inr g1 \<Rightarrow>
                    if bodyA = goal g1 \<or> bodyB = goal g1 then Inr (Some (teamLeft w))
                    else Inr None))"

definition side_name :: "Side \<Rightarrow> string" where
  "side_name s = (case s of SideLeft \<Rightarrow> ''left'' | SideRight \<Rightarrow> ''right'')"

definition onBeginContact_listener :: "body_ref \<Rightarrow> body_ref \<Rightarrow> World \<Rightarrow> error + World" where
  "onBeginContact_listener bodyA bodyB w =
     (case contact_team bodyA bodyB w of
        Inl e \<Rightarrow> Inl e
      | Inr None \<Rightarrow> Inr w
      | Inr (Some t) \<Rightarrow>
          if bodyA = ball_body (ball w) \<or> bodyB = ball_body (ball w)
          then Inr (w\<lparr>logger := logger w @ [(Debug, side_name (TeamSide t) @ '' GOAL!'')],
                      store := resetVelocity (ball w) None (store w),
                      goalEmitter := emit \<lparr>allTeams = getTeams w, teamThatScored = t\<rparr>
                                       (goalEmitter w)\<rparr>)
          else Inr w)"

subsection \<open>The tick\<close>

text \<open>
  Modelled from the spec: one call of \<^verbatim>\<open>step\<close> advances the physics world by one
  logical tick. What the engine does during the call is an input of the model, a
  sequence of events in the order the engine performs them; the call itself, with its
  three arguments, goes into the journal. The
  engine integrates bodies (\<open>Moved\<close>: a body gets a new position and velocity) and fires
  \<^verbatim>\<open>beginContact\<close> synchronously for a new touching pair; it acts on the bodies it owns
  and on no other.
\<close>

datatype EngineEvent = Moved body_ref Body | BeginContact body_ref body_ref

definition engine_event :: "EngineEvent \<Rightarrow> World \<Rightarrow> error + World" where
  "engine_event ev w =
     (case ev of
        Moved r b \<Rightarrow>
          Inr (if r \<in> set (bodies (p2World w))
               then w\<lparr>store := (store w)\<lparr>cells := (cells (store w))(r := b)\<rparr>\<rparr>
               else w)
      | BeginContact bodyA bodyB \<Rightarrow>
          if bodyA \<in> set (bodies (p2World w)) \<and> bodyB \<in> set (bodies (p2World w))
          then onBeginContact_listener bodyA bodyB w
          else Inr w)"

fun step_events :: "EngineEvent list \<Rightarrow> World \<Rightarrow> error + World" where
  "step_events [] w = Inr w"
| "step_events (ev # evs) w =
     (case engine_event ev w of Inl e \<Rightarrow> Inl e | Inr w' \<Rightarrow> step_events evs w')"

definition step :: "real \<Rightarrow> real \<Rightarrow> real \<Rightarrow> EngineEvent list \<Rightarrow> World \<Rightarrow> error + World" where
  "step dt timeSinceLastCalled maxSubSteps evs w =
     step_events evs
       (w\<lparr>store := (store w)\<lparr>journal := journal (store w) @
                   [Step dt timeSinceLastCalled maxSubSteps]\<rparr>\<rparr>)"

definition onHeartbeat ::
  "Consts \<Rightarrow> real \<Rightarrow> real \<Rightarrow> EngineEvent list \<Rightarrow> World \<Rightarrow> error + World" where
  "onHeartbeat c timeStep maxSubSteps evs w =
     (let w1 = w\<lparr>store := fold (Player_onUpdate c) (players w) (store w)\<rparr>;
          w2 = w1\<lparr>store := Ball_onUpdate c (ball w1) (store w1)\<rparr>
      in step timeStep timeStep maxSubSteps evs w2)"

subsection \<open>Match histories\<close>

text \<open>
  The calls a host can make on a match, \<^verbatim>\<open>goalEmitter.on\<close> included (the emitter is
  a public field). A history is a constructor call followed by any list of calls; an
  exception ends it.
\<close>

datatype Call =
    Reset "Team option"
  | Heartbeat real real "EngineEvent list"
  | MovePlayer Id Vector2D
  | SetPlayerReady Id
  | Clear
  | Subscribe nat

definition exec :: "Consts \<Rightarrow> Call \<Rightarrow> World \<Rightarrow> error + World" where
  "exec c call w =
     (case call of
        Reset t \<Rightarrow> reset c t w
      | Heartbeat timeStep maxSubSteps evs \<Rightarrow> onHeartbeat c timeStep maxSubSteps evs w
      | MovePlayer sid d \<Rightarrow> Inr (movePlayer sid d w)
      | SetPlayerReady sid \<Rightarrow> Inr (snd (setPlayerReady sid w))
      | Clear \<Rightarrow> Inr (clear w)
      | Subscribe l \<Rightarrow> Inr (w\<lparr>goalEmitter := TypedEvent_on l (goalEmitter w)\<rparr>))"

fun run :: "Consts \<Rightarrow> Call list \<Rightarrow> World \<Rightarrow> error + World" where
  "run c [] w = Inr w"
| "run c (call # calls) w =
     (case exec c call w of Inl e \<Rightarrow> Inl e | Inr w' \<Rightarrow> run c calls w')"

definition history :: "Consts \<Rightarrow> Id \<Rightarrow> Id \<Rightarrow> Call list \<Rightarrow> error + World" where
  "history c player1Id player2Id calls =
     (case World_constructor c player1Id player2Id of
        Inl e \<Rightarrow> Inl e
      | Inr w \<Rightarrow> run c calls w)"

section \<open>Observations\<close>

text \<open>
  What the constructor fixes for the lifetime of a match: the two goals, the bodies of
  the two players and of the ball, and the two teams.
\<close>

definition arena :: "World \<Rightarrow> bool" where
  "arena w \<longleftrightarrow>
     goals w = [\<lparr>back_wall = 9, bottom_post = 8, top_post = 7, goal = 10\<rparr>,
                \<lparr>back_wall = 13, bottom_post = 12, top_post = 11, goal = 14\<rparr>] \<and>
     map body (players w) = [4, 5] \<and>
     ball w = \<lparr>ball_body = 6\<rparr> \<and>
     teamLeft w = \<lparr>team_ref = 0, TeamSide = SideLeft\<rparr> \<and>
     teamRight w = \<lparr>team_ref = 1, TeamSide = SideRight\<rparr>"

text \<open>Where the players (in array order) and the ball are.\<close>

definition placement :: "World \<Rightarrow> Vector2D list \<times> Vector2D" where
  "placement w =
     (map (\<lambda>p. position (cells (store w) (body p))) (players w),
      position (cells (store w) (ball_body (ball w))))"

definition ball_velocity :: "World \<Rightarrow> Vector2D" where
  "ball_velocity w = velocity (cells (store w) (ball_body (ball w)))"

text \<open>The horizontal coordinate of the sensor of \<^verbatim>\<open>goals[i]\<close>.\<close>

definition sensor_x :: "nat \<Rightarrow> World \<Rightarrow> real" where
  "sensor_x i w = fst (position (cells (store w) (goal (goals w ! i))))"

text \<open>The scoring events that the contact listener emits on one notification.\<close>

definition scoring_events :: "body_ref \<Rightarrow> body_ref \<Rightarrow> World \<Rightarrow> error + IGoalEvent list" where
  "scoring_events bodyA bodyB w =
     (case onBeginContact_listener bodyA bodyB w of
        Inl e \<Rightarrow> Inl e
      | Inr w' \<Rightarrow> Inr (drop (length (emitted (goalEmitter w))) (emitted (goalEmitter w'))))"

text \<open>The answers of a sequence of \<^verbatim>\<open>setPlayerReady\<close> calls, in order.\<close>

fun setPlayerReady_calls :: "Id list \<Rightarrow> World \<Rightarrow> bool list" where
  "setPlayerReady_calls [] w = []"
| "setPlayerReady_calls (sid # sids) w =
     (case setPlayerReady sid w of (r, w') \<Rightarrow> r # setPlayerReady_calls sids w')"

text \<open>A sequence of heartbeats, each with its time step, sub-step bound and engine events.\<close>

definition heartbeats :: "(real \<times> real \<times> EngineEvent list) list \<Rightarrow> Call list" where
  "heartbeats hs = map (\<lambda>(timeStep, maxSubSteps, evs). Heartbeat timeStep maxSubSteps evs) hs"

subsection \<open>The tick as the specification words it\<close>

text \<open>
  (a) Every player's pending direction is applied to the velocity of its body; no other
  body and no position changes.
\<close>

definition apply_directions :: "Consts \<Rightarrow> World \<Rightarrow> World" where
  "apply_directions c w =
     w\<lparr>store := (store w)\<lparr>cells := (\<lambda>r.
          case find (\<lambda>p. body p = r) (players w) of
            None \<Rightarrow> cells (store w) r
          | Some p \<Rightarrow> (cells (store w) r)\<lparr>velocity :=
              (fst (direction p) * Player_SPEED c, snd (direction p) * Player_SPEED c)\<rparr>)\<rparr>\<rparr>"

text \<open>(b) The velocity of the ball is clamped to the maximum speed; nothing else changes.\<close>

definition clamp :: "real \<Rightarrow> Vector2D \<Rightarrow> Vector2D" where
  "clamp m v =
     (if fst v * fst v + snd v * snd v > m * m
      then (fst v * m / sqrt (fst v * fst v + snd v * snd v),
            snd v * m / sqrt (fst v * fst v + snd v * snd v))
      else v)"

definition clamp_ball :: "Consts \<Rightarrow> World \<Rightarrow> World" where
  "clamp_ball c w =
     w\<lparr>store := (store w)\<lparr>cells := (cells (store w))
          (ball_body (ball w) := (cells (store w) (ball_body (ball w)))
             \<lparr>velocity := clamp (Ball_MAX_VELOCITY c)
                            (velocity (cells (store w) (ball_body (ball w))))\<rparr>)\<rparr>\<rparr>"

text \<open>
  (c) The physics world advances by one step of the given time step: \<^verbatim>\<open>step\<close> is
  called once, after the calls of the two phases before, with the time step as the step
  and as the time since the last call, and the engine does its work on the match that
  the two phases have left.
\<close>

definition invoked :: "Invocation list \<Rightarrow> World \<Rightarrow> World" where
  "invoked calls w = w\<lparr>store := (store w)\<lparr>journal := journal (store w) @ calls\<rparr>\<rparr>"

definition before_step :: "Consts \<Rightarrow> real \<Rightarrow> real \<Rightarrow> World \<Rightarrow> World" where
  "before_step c timeStep maxSubSteps w =
     invoked (map OnUpdatePlayer (players w) @
              [OnUpdateBall, Step timeStep timeStep maxSubSteps])
       (clamp_ball c (apply_directions c w))"

definition heartbeat_spec ::
  "Consts \<Rightarrow> real \<Rightarrow> real \<Rightarrow> EngineEvent list \<Rightarrow> World \<Rightarrow> error + World" where
  "heartbeat_spec c timeStep maxSubSteps evs w =
     step_events evs (before_step c timeStep maxSubSteps w)"

subsection \<open>A concrete match\<close>

text \<open>Values for the constants of players and ball, and a match in its Setup state.\<close>

definition demo_consts :: Consts where
  "demo_consts =
     \<lparr>Player_DIAMETER = 60, Player_SPEED = 5, Ball_MAX_VELOCITY = 50,
      Ball_setPosition_velocity = (\<lambda>v. (0, 0))\<rparr>"

definition demo_world :: World where
  "demo_world = projr (World_constructor demo_consts ''p1'' ''p2'')"

section \<open>Invariants of a match\<close>

lemmas build_defs = World_constructor_def addWorldBounds_def new_Body_def addBody_def
  new_P2World_def new_Player_def new_Ball_def addGoals_def Let_def resetPositions_def
  element_def set_position_def set_velocity_def Player_setPosition_def Ball_setPosition_def
  new_TypedEvent_def

lemma constructor_arena:
  "\<exists>w. World_constructor c p1 p2 = Inr w \<and> arena w \<and>
       map socketId (players w) = [p1, p2] \<and> map isReady (players w) = [False, False] \<and>
       placement w = ([(GAME_SIZE_width / 4, GAME_SIZE_height / 2),
                       (GAME_SIZE_width / 1.25 - Player_DIAMETER c, GAME_SIZE_height / 2)],
                      (GAME_SIZE_width / 2, GAME_SIZE_height / 2)) \<and>
       goalEmitter w = new_TypedEvent \<and> logger w = []"
  by (simp add: build_defs arena_def placement_def)

lemma arena_players: "arena w \<Longrightarrow> \<exists>a b. players w = [a, b] \<and> body a = 4 \<and> body b = 5"
  by (cases "players w") (auto simp: arena_def)

lemma resetPositions_arena:
  assumes "arena w"
  shows "\<exists>w'. resetPositions c t w = Inr w' \<and> arena w' \<and> players w' = players w \<and>
           goalEmitter w' = goalEmitter w \<and> p2World w' = p2World w \<and>
           logger w' = logger w \<and>
           placement w' = ([(GAME_SIZE_width / 4, GAME_SIZE_height / 2),
                            (GAME_SIZE_width / 1.25 - Player_DIAMETER c, GAME_SIZE_height / 2)],
                           (GAME_SIZE_width / 2, GAME_SIZE_height / 2))"
proof -
  from arena_players [OF assms] obtain a b
    where ab: "players w = [a, b]" "body a = 4" "body b = 5"
    by blast
  have bw: "ball w = \<lparr>ball_body = 6\<rparr>"
    using assms by (simp add: arena_def)
  show ?thesis
    using ab bw assms
    by (cases t)
      (simp_all add: resetPositions_def element_def Let_def arena_def placement_def
        Player_setPosition_def Ball_setPosition_def set_position_def set_velocity_def
        resetVelocity_def)
qed

lemma listener_arena:
  assumes "arena w"
  shows "\<exists>w'. onBeginContact_listener a b w = Inr w' \<and> arena w' \<and> players w' = players w \<and>
           p2World w' = p2World w \<and> listeners (goalEmitter w') = listeners (goalEmitter w)"
  using assms
  by (simp add: onBeginContact_listener_def contact_team_def element_def arena_def emit_def)

lemma engine_event_arena:
  assumes "arena w"
  shows "\<exists>w'. engine_event ev w = Inr w' \<and> arena w' \<and> players w' = players w \<and>
           p2World w' = p2World w \<and> listeners (goalEmitter w') = listeners (goalEmitter w)"
proof (cases ev)
  case (Moved r b)
  then show ?thesis
    using assms by (simp add: engine_event_def arena_def)
next
  case (BeginContact a b)
  then show ?thesis
    using assms listener_arena [OF assms, of a b] by (simp add: engine_event_def)
qed

lemma step_events_arena:
  "arena w \<Longrightarrow> \<exists>w'. step_events evs w = Inr w' \<and> arena w' \<and> players w' = players w \<and>
           p2World w' = p2World w \<and> listeners (goalEmitter w') = listeners (goalEmitter w)"
proof (induction evs arbitrary: w)
  case Nil
  then show ?case by simp
next
  case (Cons ev evs)
  from engine_event_arena [OF Cons.prems, of ev] obtain w1 where
    w1: "engine_event ev w = Inr w1" "arena w1" "players w1 = players w"
        "p2World w1 = p2World w" "listeners (goalEmitter w1) = listeners (goalEmitter w)"
    by blast
  from Cons.IH [OF w1(2)] w1 show ?case by auto
qed

lemma step_arena:
  assumes "arena w"
  shows "\<exists>w'. step dt t ms evs w = Inr w' \<and> arena w' \<and> players w' = players w \<and>
           p2World w' = p2World w \<and> listeners (goalEmitter w') = listeners (goalEmitter w)"
proof -
  have "arena (w\<lparr>store := s\<rparr>)" for s
    using assms by (simp add: arena_def)
  from step_events_arena [OF this, of evs] show ?thesis
    by (simp add: step_def)
qed

lemma onHeartbeat_step:
  "\<exists>s. onHeartbeat c dt ms evs w = step dt dt ms evs (w\<lparr>store := s\<rparr>)"
  by (rule exI [of _ "Ball_onUpdate c (ball w)
        (fold (Player_onUpdate c) (players w) (store w))"])
    (simp add: onHeartbeat_def Let_def)

lemma onHeartbeat_arena:
  assumes "arena w"
  shows "\<exists>w'. onHeartbeat c dt ms evs w = Inr w' \<and> arena w' \<and> players w' = players w \<and>
           p2World w' = p2World w \<and> listeners (goalEmitter w') = listeners (goalEmitter w)"
proof -
  from onHeartbeat_step [of c dt ms evs w] obtain s
    where s: "onHeartbeat c dt ms evs w = step dt dt ms evs (w\<lparr>store := s\<rparr>)"
    by blast
  have "arena (w\<lparr>store := s\<rparr>)"
    using assms by (simp add: arena_def)
  from step_arena [OF this, of dt dt ms evs] s show ?thesis
    by simp
qed

lemma map_body_update_found:
  "(\<And>p. body (f p) = body p) \<Longrightarrow> map body (update_found P f xs) = map body xs"
  by (induction xs) auto

lemma exec_arena:
  assumes "arena w"
  shows "\<exists>w'. exec c call w = Inr w' \<and> arena w'"
proof (cases call)
  case (Reset t)
  then show ?thesis
    using resetPositions_arena [OF assms, of c t] by (auto simp: exec_def reset_def)
next
  case (Heartbeat dt ms evs)
  then show ?thesis
    using onHeartbeat_arena [OF assms, of c dt ms evs] by (auto simp: exec_def)
next
  case (MovePlayer sid d)
  then show ?thesis
    using assms
    by (auto simp: exec_def movePlayer_def arena_def map_body_update_found setDirection_def
        split: option.splits)
next
  case (SetPlayerReady sid)
  then show ?thesis
    using assms
    by (auto simp: exec_def setPlayerReady_def arena_def map_body_update_found Let_def
        split: option.splits)
next
  case Clear
  then show ?thesis
    using assms by (simp add: exec_def clear_def arena_def)
next
  case (Subscribe l)
  then show ?thesis
    using assms by (simp add: exec_def arena_def)
qed

lemma run_arena: "arena w \<Longrightarrow> \<exists>w'. run c calls w = Inr w' \<and> arena w'"
proof (induction calls arbitrary: w)
  case Nil
  then show ?case by simp
next
  case (Cons call calls)
  from exec_arena [OF Cons.prems, of c call] obtain w1
    where "exec c call w = Inr w1" "arena w1"
    by blast
  with Cons.IH [of w1] show ?case by simp
qed

text \<open>Every history runs to its end without an exception, and ends in an arena.\<close>

lemma history_arena: "\<exists>w. history c p1 p2 calls = Inr w \<and> arena w"
proof -
  from constructor_arena [of c p1 p2] obtain w0
    where "World_constructor c p1 p2 = Inr w0" "arena w0"
    by blast
  with run_arena [of w0 c calls] show ?thesis
    by (simp add: history_def)
qed

lemma demo_world_arena: "arena demo_world"
  using constructor_arena [of demo_consts "''p1''" "''p2''"]
  by (auto simp: demo_world_def)

lemma history_arenaD: "history c p1 p2 calls = Inr w \<Longrightarrow> arena w"
  using history_arena [of c p1 p2 calls] by auto

lemma arena_refs:
  assumes "arena w"
  shows "goal (goals w ! 0) = 10" "goal (goals w ! 1) = 14" "ball_body (ball w) = 6"
    "length (goals w) = 2"
  using assms by (simp_all add: arena_def)

lemma arena_contact_team:
  assumes "arena w"
  shows "contact_team 10 6 w = Inr (Some (teamRight w))"
    "contact_team 6 10 w = Inr (Some (teamRight w))"
    "contact_team 14 6 w = Inr (Some (teamLeft w))"
    "contact_team 6 14 w = Inr (Some (teamLeft w))"
    "contact_team 10 14 w = Inr (Some (teamRight w))"
    "contact_team 14 10 w = Inr (Some (teamRight w))"
  using arena_refs [OF assms] by (simp_all add: contact_team_def element_def)

lemma arena_scoring_events:
  assumes "arena w"
  shows "scoring_events 10 6 w = Inr [\<lparr>allTeams = getTeams w, teamThatScored = teamRight w\<rparr>]"
    "scoring_events 6 10 w = Inr [\<lparr>allTeams = getTeams w, teamThatScored = teamRight w\<rparr>]"
    "scoring_events 14 6 w = Inr [\<lparr>allTeams = getTeams w, teamThatScored = teamLeft w\<rparr>]"
    "scoring_events 6 14 w = Inr [\<lparr>allTeams = getTeams w, teamThatScored = teamLeft w\<rparr>]"
  using arena_refs [OF assms] arena_contact_team [OF assms]
  by (simp_all add: scoring_events_def onBeginContact_listener_def emit_def)

lemma demo_world_ids: "map socketId (players demo_world) = [''p1'', ''p2'']"
  using constructor_arena [of demo_consts "''p1''" "''p2''"]
  by (auto simp: demo_world_def)

lemma reset_arena_velocity:
  assumes "arena w"
  shows "map_sum id ball_velocity (reset c (Some (teamLeft w)) w) = Inr (BALL_INIT_VELOCITY, 0)"
    "map_sum id ball_velocity (reset c (Some (teamRight w)) w) = Inr (- BALL_INIT_VELOCITY, 0)"
proof -
  from arena_players [OF assms] obtain a b
    where ab: "players w = [a, b]" "body a = 4" "body b = 5"
    by blast
  have bw: "ball w = \<lparr>ball_body = 6\<rparr>"
    using assms by (simp add: arena_def)
  have tt: "teamRight w \<noteq> teamLeft w"
    using assms by (simp add: arena_def)
  show "map_sum id ball_velocity (reset c (Some (teamLeft w)) w) = Inr (BALL_INIT_VELOCITY, 0)"
    using ab bw
    by (simp add: reset_def resetPositions_def element_def Let_def ball_velocity_def
        Player_setPosition_def Ball_setPosition_def set_position_def set_velocity_def
        resetVelocity_def)
  show "map_sum id ball_velocity (reset c (Some (teamRight w)) w) = Inr (- BALL_INIT_VELOCITY, 0)"
    using ab bw tt
    by (simp add: reset_def resetPositions_def element_def Let_def ball_velocity_def
        Player_setPosition_def Ball_setPosition_def set_position_def set_velocity_def
        resetVelocity_def)
qed

lemma listener_keeps_teams:
  "onBeginContact_listener a b w = Inr w' \<Longrightarrow>
   teamLeft w' = teamLeft w \<and> teamRight w' = teamRight w"
  by (auto simp: onBeginContact_listener_def split: sum.splits option.splits if_splits)

lemma constructor_sensors:
  "map_sum id (sensor_x 0) (World_constructor c p1 p2) = Inr 112"
  "map_sum id (sensor_x 1) (World_constructor c p1 p2) = Inr 1088"
  by (simp_all add: build_defs sensor_x_def GAME_SIZE_width_def)

section \<open>Collision classification\<close>

text \<open>
  Claim C1. In every state a match can reach, a "begin contact" notification for the
  sensor of the left team's goal (\<^verbatim>\<open>goals[0].goal\<close>, built for \<^verbatim>\<open>teamLeft\<close>) and the
  ball, in either order, emits one scoring event whose scoring team is the right team;
  for the sensor of the right team's goal and the ball the scoring team is the left
  team; a notification in which neither body is the ball emits nothing and changes
  nothing; and when both sensors are in the pair, the test of the left sensor runs
  first, so that the listener's team is the right team.
\<close>

theorem contact_classification:
  "\<exists>w. history c p1 p2 calls = Inr w \<and> length (goals w) = 2 \<and>
     TeamSide (teamLeft w) = SideLeft \<and> TeamSide (teamRight w) = SideRight \<and>
     scoring_events (goal (goals w ! 0)) (ball_body (ball w)) w =
       Inr [\<lparr>allTeams = getTeams w, teamThatScored = teamRight w\<rparr>] \<and>
     scoring_events (ball_body (ball w)) (goal (goals w ! 0)) w =
       Inr [\<lparr>allTeams = getTeams w, teamThatScored = teamRight w\<rparr>] \<and>
     scoring_events (goal (goals w ! 1)) (ball_body (ball w)) w =
       Inr [\<lparr>allTeams = getTeams w, teamThatScored = teamLeft w\<rparr>] \<and>
     scoring_events (ball_body (ball w)) (goal (goals w ! 1)) w =
       Inr [\<lparr>allTeams = getTeams w, teamThatScored = teamLeft w\<rparr>] \<and>
     (bodyA \<noteq> ball_body (ball w) \<and> bodyB \<noteq> ball_body (ball w) \<longrightarrow>
        onBeginContact_listener bodyA bodyB w = Inr w \<and>
        scoring_events bodyA bodyB w = Inr []) \<and>
     contact_team (goal (goals w ! 0)) (goal (goals w ! 1)) w = Inr (Some (teamRight w)) \<and>
     contact_team (goal (goals w ! 1)) (goal (goals w ! 0)) w = Inr (Some (teamRight w))"
proof -
  from history_arena [of c p1 p2 calls] obtain w
    where w: "history c p1 p2 calls = Inr w" "arena w"
    by blast
  note a = arena_refs [OF w(2)]
  have t: "TeamSide (teamLeft w) = SideLeft" "TeamSide (teamRight w) = SideRight"
    using w(2) by (simp_all add: arena_def)
  have nb: "bodyA \<noteq> 6 \<and> bodyB \<noteq> 6 \<longrightarrow>
        onBeginContact_listener bodyA bodyB w = Inr w \<and> scoring_events bodyA bodyB w = Inr []"
    using a
    by (simp add: scoring_events_def onBeginContact_listener_def contact_team_def element_def)
  show ?thesis
    using w(1) t arena_contact_team [OF w(2)] arena_scoring_events [OF w(2)] nb a by simp
qed

theorem contact_classification_witness:
  "\<exists>w. history demo_consts ''p1'' ''p2'' [] = Inr w \<and>
     0 \<noteq> ball_body (ball w) \<and> 4 \<noteq> ball_body (ball w) \<and>
     onBeginContact_listener 0 4 w = Inr w \<and> scoring_events 0 4 w = Inr []"
proof -
  from contact_classification [of demo_consts "''p1''" "''p2''" "[]" 0 4] obtain w
    where w: "history demo_consts ''p1'' ''p2'' [] = Inr w"
      "0 \<noteq> ball_body (ball w) \<and> 4 \<noteq> ball_body (ball w) \<longrightarrow>
        onBeginContact_listener 0 4 w = Inr w \<and> scoring_events 0 4 w = Inr []"
    by blast
  have "ball_body (ball w) = 6"
    using arena_refs [OF history_arenaD [OF w(1)]] by simp
  with w show ?thesis by simp
qed

section \<open>The goal transition\<close>

lemmas run_defs = history_def exec_def onHeartbeat_def step_def engine_event_def
  onBeginContact_listener_def contact_team_def Player_onUpdate_def Ball_onUpdate_def
  resetVelocity_def emit_def getTeams_def reset_def demo_consts_def

text \<open>
  After a heartbeat in which the engine carries the ball to the right goal and reports
  its contact with the sensor there, one scoring event has been emitted, and the ball
  and both players are where the engine left them: the listener has not re-centred
  anything.
\<close>

theorem scoring_contact_not_recentred:
  "map_sum id placement
     (history demo_consts ''p1'' ''p2''
        [Heartbeat (1 / 60) 10
           [Moved 6 \<lparr>position = (1085, 300), velocity = (30, 0)\<rparr>, BeginContact 6 14]]) =
     Inr ([(300, 300), (900, 300)], (1085, 300)) \<and>
   map_sum id (emitted \<circ> goalEmitter)
     (history demo_consts ''p1'' ''p2''
        [Heartbeat (1 / 60) 10
           [Moved 6 \<lparr>position = (1085, 300), velocity = (30, 0)\<rparr>, BeginContact 6 14]]) =
     Inr [\<lparr>allTeams = \<lparr>teams_teamLeft = \<lparr>team_ref = 0, TeamSide = SideLeft\<rparr>,
                        teams_teamRight = \<lparr>team_ref = 1, TeamSide = SideRight\<rparr>\<rparr>,
           teamThatScored = \<lparr>team_ref = 0, TeamSide = SideLeft\<rparr>\<rparr>] \<and>
   (1085, 300) \<noteq> (GAME_SIZE_width / 2, GAME_SIZE_height / 2)"
  by (simp add: run_defs build_defs placement_def GAME_SIZE_width_def GAME_SIZE_height_def)

text \<open>
  Claim C2, amended. On every validated scoring contact (the listener has found a team
  and one body of the pair is the ball) the listener sets the velocity of the ball to
  zero and emits exactly one scoring event, which carries the scoring team and both
  teams and reaches every registered handler once, in registration order. The listener
  moves neither the players nor the ball; re-centring is left to \<^verbatim>\<open>reset\<close>.
\<close>

theorem scoring_contact_effect:
  assumes "contact_team bodyA bodyB w = Inr (Some t)"
    and "bodyA = ball_body (ball w) \<or> bodyB = ball_body (ball w)"
  shows "\<exists>w'. onBeginContact_listener bodyA bodyB w = Inr w' \<and>
     ball_velocity w' = (0, 0) \<and>
     emitted (goalEmitter w') =
       emitted (goalEmitter w) @ [\<lparr>allTeams = getTeams w, teamThatScored = t\<rparr>] \<and>
     notified (goalEmitter w') =
       notified (goalEmitter w) @
         map (\<lambda>l. (l, \<lparr>allTeams = getTeams w, teamThatScored = t\<rparr>))
           (listeners (goalEmitter w)) \<and>
     placement w' = placement w"
  using assms
  by (auto simp: onBeginContact_listener_def ball_velocity_def emit_def placement_def
      resetVelocity_def set_velocity_def)

theorem scoring_contact_effect_witness:
  "contact_team 14 6 demo_world = Inr (Some (teamLeft demo_world)) \<and>
   (14 = ball_body (ball demo_world) \<or> 6 = ball_body (ball demo_world)) \<and>
   (\<exists>w'. onBeginContact_listener 14 6 demo_world = Inr w' \<and>
     ball_velocity w' = (0, 0) \<and>
     emitted (goalEmitter w') =
       emitted (goalEmitter demo_world) @
         [\<lparr>allTeams = getTeams demo_world, teamThatScored = teamLeft demo_world\<rparr>] \<and>
     notified (goalEmitter w') =
       notified (goalEmitter demo_world) @
         map (\<lambda>l. (l, \<lparr>allTeams = getTeams demo_world,
                        teamThatScored = teamLeft demo_world\<rparr>))
           (listeners (goalEmitter demo_world)) \<and>
     placement w' = placement demo_world)"
proof -
  have h1: "contact_team 14 6 demo_world = Inr (Some (teamLeft demo_world))"
    by (rule arena_contact_team [OF demo_world_arena])
  have h2: "14 = ball_body (ball demo_world) \<or> 6 = ball_body (ball demo_world)"
    using arena_refs [OF demo_world_arena] by simp
  from scoring_contact_effect [OF h1 h2] h1 h2 show ?thesis
    by blast
qed

section \<open>Kick-off after a goal\<close>

text \<open>
  Claim C3. In every state a match can reach, a contact of the ball with the sensor of
  the right team's goal emits a scoring event whose \<^verbatim>\<open>teamThatScored\<close> is the left
  team; a reset with the left team as scorer, right after that contact or at any other
  time, gives the ball the velocity (40, 0), which points to the side of the right goal
  (its sensor is built at x = 1088, right of the centre); a reset with the right team
  as scorer gives it (-40, 0).
\<close>

theorem kickoff_direction:
  "\<exists>w. history c p1 p2 calls = Inr w \<and> length (goals w) = 2 \<and>
     TeamSide (teamLeft w) = SideLeft \<and> TeamSide (teamRight w) = SideRight \<and>
     scoring_events (goal (goals w ! 1)) (ball_body (ball w)) w =
       Inr [\<lparr>allTeams = getTeams w, teamThatScored = teamLeft w\<rparr>] \<and>
     scoring_events (ball_body (ball w)) (goal (goals w ! 1)) w =
       Inr [\<lparr>allTeams = getTeams w, teamThatScored = teamLeft w\<rparr>] \<and>
     (\<exists>w'. onBeginContact_listener (goal (goals w ! 1)) (ball_body (ball w)) w = Inr w' \<and>
        map_sum id ball_velocity (reset c (Some (teamLeft w)) w') =
          Inr (BALL_INIT_VELOCITY, 0)) \<and>
     map_sum id ball_velocity (reset c (Some (teamLeft w)) w) = Inr (BALL_INIT_VELOCITY, 0) \<and>
     map_sum id ball_velocity (reset c (Some (teamRight w)) w) =
       Inr (- BALL_INIT_VELOCITY, 0) \<and>
     0 < BALL_INIT_VELOCITY \<and>
     map_sum id (sensor_x 1) (World_constructor c p1 p2) = Inr 1088 \<and>
     GAME_SIZE_width / 2 < 1088"
proof -
  from history_arena [of c p1 p2 calls] obtain w
    where w: "history c p1 p2 calls = Inr w" "arena w"
    by blast
  note a = arena_refs [OF w(2)]
  have t: "TeamSide (teamLeft w) = SideLeft" "TeamSide (teamRight w) = SideRight"
    using w(2) by (simp_all add: arena_def)
  from listener_arena [OF w(2), of 14 6] obtain w'
    where w': "onBeginContact_listener 14 6 w = Inr w'" "arena w'"
    by blast
  have "teamLeft w' = teamLeft w"
    using listener_keeps_teams [OF w'(1)] by simp
  with reset_arena_velocity(1) [OF w'(2), of c]
  have sub: "map_sum id ball_velocity (reset c (Some (teamLeft w)) w') =
      Inr (BALL_INIT_VELOCITY, 0)"
    by simp
  show ?thesis
    using w(1) t a arena_scoring_events [OF w(2)] w'(1) sub
      reset_arena_velocity [OF w(2), of c] constructor_sensors(2) [of c p1 p2]
    by (simp add: BALL_INIT_VELOCITY_def GAME_SIZE_width_def)
qed

section \<open>Readiness\<close>

lemma setPlayerReady_two:
  assumes "players w = [a, b]"
  shows "\<exists>w'. setPlayerReady sid w =
      ((sid = socketId a \<or> sid = socketId b) \<and> (isReady a \<or> sid = socketId a) \<and>
         (isReady b \<or> (sid \<noteq> socketId a \<and> sid = socketId b)), w') \<and>
      players w' = [a\<lparr>isReady := isReady a \<or> sid = socketId a\<rparr>,
                    b\<lparr>isReady := isReady b \<or> (sid \<noteq> socketId a \<and> sid = socketId b)\<rparr>]"
  using assms by (auto simp: setPlayerReady_def Let_def)

lemma setPlayerReady_calls_nth:
  "players w = [a, b] \<Longrightarrow> k < length sids \<Longrightarrow>
   setPlayerReady_calls sids w ! k =
     ((sids ! k = socketId a \<or> sids ! k = socketId b) \<and>
      (isReady a \<or> socketId a \<in> set (take (Suc k) sids)) \<and>
      (isReady b \<or> (socketId a \<noteq> socketId b \<and> socketId b \<in> set (take (Suc k) sids))))"
proof (induction sids arbitrary: w a b k)
  case Nil
  then show ?case by simp
next
  case (Cons sid sids)
  from setPlayerReady_two [OF Cons.prems(1), of sid] obtain w' where
    w': "setPlayerReady sid w =
      ((sid = socketId a \<or> sid = socketId b) \<and> (isReady a \<or> sid = socketId a) \<and>
         (isReady b \<or> (sid \<noteq> socketId a \<and> sid = socketId b)), w')"
      "players w' = [a\<lparr>isReady := isReady a \<or> sid = socketId a\<rparr>,
                    b\<lparr>isReady := isReady b \<or> (sid \<noteq> socketId a \<and> sid = socketId b)\<rparr>]"
    by blast
  show ?case
  proof (cases k)
    case 0
    then show ?thesis
      using w'(1) by auto
  next
    case (Suc j)
    then have j: "j < length sids"
      using Cons.prems(2) by simp
    from Cons.IH [OF w'(2) j] Suc w'(1) show ?thesis
      by auto
  qed
qed

lemma length_setPlayerReady_calls: "length (setPlayerReady_calls sids w) = length sids"
  by (induction sids arbitrary: w) (auto split: prod.splits)

text \<open>
  Claim C4. For every sequence of \<^verbatim>\<open>setPlayerReady\<close> calls on a new match, the k-th
  call answers true exactly when its id is the id of a player of the match and, up to
  and including this call, each of the two players has been marked ready: so it answers
  false as long as fewer than both players are marked, and true on the call that marks
  the second one and on every later call with the id of a player. (With two equal ids
  the second player can never be marked, and every call answers false.)
\<close>

theorem setPlayerReady_answers:
  "\<exists>w. World_constructor c p1 p2 = Inr w \<and>
     length (setPlayerReady_calls sids w) = length sids \<and>
     (\<forall>k < length sids.
        setPlayerReady_calls sids w ! k =
          (p1 \<noteq> p2 \<and> (sids ! k = p1 \<or> sids ! k = p2) \<and>
           p1 \<in> set (take (Suc k) sids) \<and> p2 \<in> set (take (Suc k) sids)))"
proof -
  have "\<exists>w. World_constructor c p1 p2 = Inr w \<and> map socketId (players w) = [p1, p2] \<and>
       map isReady (players w) = [False, False]"
    by (simp add: build_defs)
  then obtain w where
    w: "World_constructor c p1 p2 = Inr w" "map socketId (players w) = [p1, p2]"
       "map isReady (players w) = [False, False]"
    by auto
  from w(2) obtain a b where ab: "players w = [a, b]" "socketId a = p1" "socketId b = p2"
    by (cases "players w") auto
  from w(3) ab have r: "\<not> isReady a" "\<not> isReady b"
    by simp_all
  show ?thesis
    using w(1) setPlayerReady_calls_nth [OF ab(1)] ab(2,3) r length_setPlayerReady_calls
    by auto
qed

theorem setPlayerReady_answers_witness:
  "\<exists>w. World_constructor demo_consts ''p1'' ''p2'' = Inr w \<and>
     (3 :: nat) < length [''p1'', ''p3'', ''p1'', ''p2'', ''p1''] \<and>
     \<not> setPlayerReady_calls [''p1'', ''p3'', ''p1'', ''p2'', ''p1''] w ! 2 \<and>
     setPlayerReady_calls [''p1'', ''p3'', ''p1'', ''p2'', ''p1''] w ! 3"
proof -
  let ?sids = "[''p1'', ''p3'', ''p1'', ''p2'', ''p1'']"
  from setPlayerReady_answers [of demo_consts "''p1''" "''p2''" ?sids] obtain w
    where w: "World_constructor demo_consts ''p1'' ''p2'' = Inr w"
      "\<forall>k < length ?sids.
        setPlayerReady_calls ?sids w ! k =
          (''p1'' \<noteq> ''p2'' \<and> (?sids ! k = ''p1'' \<or> ?sids ! k = ''p2'') \<and>
           ''p1'' \<in> set (take (Suc k) ?sids) \<and> ''p2'' \<in> set (take (Suc k) ?sids))"
    by auto
  from w(2) [rule_format, of 2] have r2: "\<not> setPlayerReady_calls ?sids w ! 2"
    by simp
  from w(2) [rule_format, of 3] have r3: "setPlayerReady_calls ?sids w ! 3"
    by simp
  from w(1) r2 r3 show ?thesis
    by simp
qed

section \<open>The tick\<close>

lemma Ball_onUpdate_clamp:
  "Ball_onUpdate c b h =
     h\<lparr>cells := (cells h)(ball_body b := (cells h (ball_body b))
          \<lparr>velocity := clamp (Ball_MAX_VELOCITY c) (velocity (cells h (ball_body b)))\<rparr>),
       journal := journal h @ [OnUpdateBall]\<rparr>"
  by (simp add: Ball_onUpdate_def clamp_def set_velocity_def Let_def split: prod.splits)

lemma fold_Player_onUpdate_two:
  assumes "players w = [a, b]" "body a \<noteq> body b"
  shows "fold (Player_onUpdate c) (players w) (store w) =
    (store (apply_directions c w))\<lparr>journal := journal (store w) @
       [OnUpdatePlayer a, OnUpdatePlayer b]\<rparr>"
proof -
  have "(\<lambda>r. case find (\<lambda>p. body p = r) [a, b] of
            None \<Rightarrow> cells (store w) r
          | Some p \<Rightarrow> (cells (store w) r)\<lparr>velocity :=
              (fst (direction p) * Player_SPEED c, snd (direction p) * Player_SPEED c)\<rparr>) =
        cells (Player_onUpdate c b (Player_onUpdate c a (store w)))"
    using assms(2) by (auto simp: Player_onUpdate_def set_velocity_def fun_eq_iff)
  then show ?thesis
    using assms(1) by (simp add: apply_directions_def Player_onUpdate_def set_velocity_def)
qed

lemma onHeartbeat_before_step:
  assumes "arena w"
  shows "onHeartbeat c timeStep maxSubSteps evs w =
    step_events evs (before_step c timeStep maxSubSteps w)"
proof -
  from arena_players [OF assms] obtain a b
    where ab: "players w = [a, b]" "body a = 4" "body b = 5"
    by blast
  then have d: "body a \<noteq> body b"
    by simp
  show ?thesis
    using fold_Player_onUpdate_two [OF ab(1) d, of c] ab(1)
    by (simp add: onHeartbeat_def step_def Let_def Ball_onUpdate_clamp before_step_def
        invoked_def clamp_ball_def apply_directions_def)
qed

lemma engine_event_journal:
  "engine_event ev w = Inr w' \<Longrightarrow> journal (store w') = journal (store w)"
  by (auto simp: engine_event_def onBeginContact_listener_def resetVelocity_def
      set_velocity_def split: EngineEvent.splits sum.splits option.splits if_splits)

lemma step_events_journal:
  "step_events evs w = Inr w' \<Longrightarrow> journal (store w') = journal (store w)"
proof (induction evs arbitrary: w)
  case Nil
  then show ?case by simp
next
  case (Cons ev evs)
  then show ?case
    by (auto split: sum.splits dest: engine_event_journal)
qed

lemma constructor_bodies:
  "\<exists>w. World_constructor c p1 p2 = Inr w \<and>
     bodies (p2World w) = [0, 1, 2, 3, 4, 5, 6, 7, 8, 9, 10, 11, 12, 13, 14]"
  by (simp add: build_defs)

text \<open>
  Claim C5. In every state a match can reach, \<^verbatim>\<open>onHeartbeat\<close> is the three phases of
  the specification in their order. It calls \<^verbatim>\<open>onUpdate\<close> on each player in array
  order, then \<^verbatim>\<open>onUpdate\<close> on the ball, then \<^verbatim>\<open>step\<close> exactly once, with the time
  step as the step and as the time since the last call and with the given bound on
  sub-steps, and it makes no other of these calls. The engine starts its step on the
  match in which (a) the pending direction of each player has been applied to the
  velocity of its body and (b) the velocity of the ball has been clamped: with no engine
  event that match is the result, a body the engine moves is moved in it, and a contact
  the engine reports reaches the contact listener in it. The two phases before the step
  change velocities only: no body moves and all of the match outside the bodies is as
  before. The tick raises nothing and leaves the players' ids, flags and pending
  directions, the bodies the physics world owns and the registered handlers as they
  were.
\<close>

theorem heartbeat_phases:
  "\<exists>w. history c p1 p2 calls = Inr w \<and>
     onHeartbeat c timeStep maxSubSteps evs w = heartbeat_spec c timeStep maxSubSteps evs w \<and>
     (\<exists>w'. onHeartbeat c timeStep maxSubSteps evs w = Inr w' \<and>
        journal (store w') =
          journal (store w) @ map OnUpdatePlayer (players w) @
            [OnUpdateBall, Step timeStep timeStep maxSubSteps] \<and>
        players w' = players w \<and> p2World w' = p2World w \<and>
        listeners (goalEmitter w') = listeners (goalEmitter w)) \<and>
     onHeartbeat c timeStep maxSubSteps [] w = Inr (before_step c timeStep maxSubSteps w) \<and>
     (r \<in> set (bodies (p2World w)) \<longrightarrow>
        onHeartbeat c timeStep maxSubSteps [Moved r b] w =
          Inr ((before_step c timeStep maxSubSteps w)
                 \<lparr>store := (store (before_step c timeStep maxSubSteps w))
                    \<lparr>cells := (cells (store (before_step c timeStep maxSubSteps w)))
                       (r := b)\<rparr>\<rparr>)) \<and>
     (bodyA \<in> set (bodies (p2World w)) \<and> bodyB \<in> set (bodies (p2World w)) \<longrightarrow>
        onHeartbeat c timeStep maxSubSteps [BeginContact bodyA bodyB] w =
          onBeginContact_listener bodyA bodyB (before_step c timeStep maxSubSteps w)) \<and>
     placement (clamp_ball c (apply_directions c w)) = placement w \<and>
     (\<forall>x. position (cells (store (clamp_ball c (apply_directions c w))) x) =
          position (cells (store w) x)) \<and>
     (clamp_ball c (apply_directions c w))\<lparr>store := store w\<rparr> = w"
proof -
  from history_arena [of c p1 p2 calls] obtain w
    where w: "history c p1 p2 calls = Inr w" "arena w"
    by blast
  from arena_players [OF w(2)] obtain pa pb
    where ab: "players w = [pa, pb]" "body pa = 4" "body pb = 5"
    by blast
  note e = onHeartbeat_before_step [OF w(2), of c timeStep maxSubSteps]
  have pw: "p2World (before_step c timeStep maxSubSteps w) = p2World w"
    by (simp add: before_step_def invoked_def clamp_ball_def apply_directions_def)
  have e0: "onHeartbeat c timeStep maxSubSteps evs w =
      heartbeat_spec c timeStep maxSubSteps evs w"
    using e by (simp add: heartbeat_spec_def)
  from onHeartbeat_arena [OF w(2), of c timeStep maxSubSteps evs] obtain w'
    where w': "onHeartbeat c timeStep maxSubSteps evs w = Inr w'" "players w' = players w"
      "p2World w' = p2World w" "listeners (goalEmitter w') = listeners (goalEmitter w)"
    by blast
  have "step_events evs (before_step c timeStep maxSubSteps w) = Inr w'"
    using e [of evs] w'(1) by simp
  from step_events_journal [OF this]
  have j: "journal (store w') =
      journal (store w) @ map OnUpdatePlayer (players w) @
        [OnUpdateBall, Step timeStep timeStep maxSubSteps]"
    by (simp add: before_step_def invoked_def clamp_ball_def apply_directions_def)
  have g: "\<exists>w'. onHeartbeat c timeStep maxSubSteps evs w = Inr w' \<and>
        journal (store w') =
          journal (store w) @ map OnUpdatePlayer (players w) @
            [OnUpdateBall, Step timeStep timeStep maxSubSteps] \<and>
        players w' = players w \<and> p2World w' = p2World w \<and>
        listeners (goalEmitter w') = listeners (goalEmitter w)"
    using w' j by blast
  have n: "onHeartbeat c timeStep maxSubSteps [] w =
      Inr (before_step c timeStep maxSubSteps w)"
    using e [of "[]"] by simp
  have m: "r \<in> set (bodies (p2World w)) \<longrightarrow>
        onHeartbeat c timeStep maxSubSteps [Moved r b] w =
          Inr ((before_step c timeStep maxSubSteps w)
                 \<lparr>store := (store (before_step c timeStep maxSubSteps w))
                    \<lparr>cells := (cells (store (before_step c timeStep maxSubSteps w)))
                       (r := b)\<rparr>\<rparr>)"
    using e [of "[Moved r b]"] pw by (simp add: engine_event_def)
  from listener_arena [of "before_step c timeStep maxSubSteps w" bodyA bodyB] w(2)
  obtain w2 where w2:
    "onBeginContact_listener bodyA bodyB (before_step c timeStep maxSubSteps w) = Inr w2"
    by (auto simp: arena_def before_step_def invoked_def clamp_ball_def apply_directions_def)
  have k: "bodyA \<in> set (bodies (p2World w)) \<and> bodyB \<in> set (bodies (p2World w)) \<longrightarrow>
        onHeartbeat c timeStep maxSubSteps [BeginContact bodyA bodyB] w =
          onBeginContact_listener bodyA bodyB (before_step c timeStep maxSubSteps w)"
    using e [of "[BeginContact bodyA bodyB]"] pw w2 by (simp add: engine_event_def)
  have p: "placement (clamp_ball c (apply_directions c w)) = placement w"
    using ab by (simp add: placement_def clamp_ball_def apply_directions_def)
  have q: "\<forall>x. position (cells (store (clamp_ball c (apply_directions c w))) x) =
      position (cells (store w) x)"
    by (simp add: clamp_ball_def apply_directions_def split: option.splits)
  have f: "(clamp_ball c (apply_directions c w))\<lparr>store := store w\<rparr> = w"
    by (simp add: clamp_ball_def apply_directions_def)
  show ?thesis
    using w(1) e0 g n m k p q f by blast
qed

theorem heartbeat_phases_witness:
  "\<exists>w. history demo_consts ''p1'' ''p2'' [] = Inr w \<and>
     6 \<in> set (bodies (p2World w)) \<and> 14 \<in> set (bodies (p2World w)) \<and>
     onHeartbeat demo_consts (1 / 60) 10
         [Moved 6 \<lparr>position = (1085, 300), velocity = (30, 0)\<rparr>] w =
       Inr ((before_step demo_consts (1 / 60) 10 w)
              \<lparr>store := (store (before_step demo_consts (1 / 60) 10 w))
                 \<lparr>cells := (cells (store (before_step demo_consts (1 / 60) 10 w)))
                    (6 := \<lparr>position = (1085, 300), velocity = (30, 0)\<rparr>)\<rparr>\<rparr>) \<and>
     onHeartbeat demo_consts (1 / 60) 10 [BeginContact 6 14] w =
       onBeginContact_listener 6 14 (before_step demo_consts (1 / 60) 10 w)"
proof -
  from heartbeat_phases [of demo_consts "''p1''" "''p2''" "[]" "1 / 60" 10 "[]" 6
      "\<lparr>position = (1085, 300), velocity = (30, 0)\<rparr>" 6 14]
  obtain w where w: "history demo_consts ''p1'' ''p2'' [] = Inr w"
    "6 \<in> set (bodies (p2World w)) \<longrightarrow>
      onHeartbeat demo_consts (1 / 60) 10
          [Moved 6 \<lparr>position = (1085, 300), velocity = (30, 0)\<rparr>] w =
        Inr ((before_step demo_consts (1 / 60) 10 w)
               \<lparr>store := (store (before_step demo_consts (1 / 60) 10 w))
                  \<lparr>cells := (cells (store (before_step demo_consts (1 / 60) 10 w)))
                     (6 := \<lparr>position = (1085, 300), velocity = (30, 0)\<rparr>)\<rparr>\<rparr>)"
    "6 \<in> set (bodies (p2World w)) \<and> 14 \<in> set (bodies (p2World w)) \<longrightarrow>
      onHeartbeat demo_consts (1 / 60) 10 [BeginContact 6 14] w =
        onBeginContact_listener 6 14 (before_step demo_consts (1 / 60) 10 w)"
    by (elim exE conjE)
  have hb: "bodies (p2World w) = [0, 1, 2, 3, 4, 5, 6, 7, 8, 9, 10, 11, 12, 13, 14]"
    using w(1) constructor_bodies [of demo_consts "''p1''" "''p2''"]
    by (auto simp: history_def)
  have o: "6 \<in> set (bodies (p2World w))" "14 \<in> set (bodies (p2World w))"
    by (simp_all add: hb)
  from w o show ?thesis
    by (intro exI [of _ w]) simp
qed

section \<open>Re-centring\<close>

text \<open>
  With players of diameter 60 the right player is put at x = 1200 / 1.25 - 60 = 900,
  a whole diameter left of 960 and not a radius.
\<close>

theorem reset_right_player_at_diameter:
  "map_sum id placement (history demo_consts ''p1'' ''p2'' [Reset None]) =
     Inr ([(300, 300), (900, 300)], (600, 300)) \<and>
   (900, 300) \<noteq>
     (GAME_SIZE_width / 1.25 - Player_DIAMETER demo_consts / 2, GAME_SIZE_height / 2)"
  by (simp add: history_def exec_def reset_def demo_consts_def build_defs placement_def
      GAME_SIZE_width_def GAME_SIZE_height_def)

text \<open>
  Claim C7, amended. After any match history, a reset (with or without a scoring team)
  puts the left player at (width / 4, height / 2), the right player at
  (width / 1.25 minus the diameter of a player, height / 2) and the ball at
  (width / 2, height / 2): the placement right after construction.
\<close>

theorem reset_placement:
  "\<exists>w. history c p1 p2 calls = Inr w \<and>
     map_sum id placement (reset c t w) =
       Inr ([(GAME_SIZE_width / 4, GAME_SIZE_height / 2),
             (GAME_SIZE_width / 1.25 - Player_DIAMETER c, GAME_SIZE_height / 2)],
            (GAME_SIZE_width / 2, GAME_SIZE_height / 2)) \<and>
     map_sum id placement (reset c t w) = map_sum id placement (World_constructor c p1 p2)"
proof -
  from history_arena [of c p1 p2 calls] obtain w
    where w: "history c p1 p2 calls = Inr w" "arena w"
    by blast
  from resetPositions_arena [OF w(2), of c t] obtain w'
    where w': "resetPositions c t w = Inr w'"
      "placement w' = ([(GAME_SIZE_width / 4, GAME_SIZE_height / 2),
             (GAME_SIZE_width / 1.25 - Player_DIAMETER c, GAME_SIZE_height / 2)],
            (GAME_SIZE_width / 2, GAME_SIZE_height / 2))"
    by auto
  from constructor_arena [of c p1 p2] obtain w0
    where w0: "World_constructor c p1 p2 = Inr w0"
      "placement w0 = ([(GAME_SIZE_width / 4, GAME_SIZE_height / 2),
             (GAME_SIZE_width / 1.25 - Player_DIAMETER c, GAME_SIZE_height / 2)],
            (GAME_SIZE_width / 2, GAME_SIZE_height / 2))"
    by auto
  show ?thesis
    using w(1) w' w0 by (simp add: reset_def)
qed

text \<open>
  A reset without a team makes no call of \<^verbatim>\<open>resetVelocity\<close>: the ball keeps the
  velocity that \<^verbatim>\<open>Ball.setPosition\<close> leaves.
\<close>

lemma reset_None_ball_velocity:
  "\<exists>w. history c p1 p2 calls = Inr w \<and>
     (\<exists>w'. reset c None w = Inr w' \<and>
        ball_velocity w' = Ball_setPosition_velocity c (ball_velocity w))"
proof -
  from history_arena [of c p1 p2 calls] obtain w
    where w: "history c p1 p2 calls = Inr w" "arena w"
    by blast
  from arena_players [OF w(2)] obtain a b
    where ab: "players w = [a, b]" "body a = 4" "body b = 5"
    by blast
  have bw: "ball w = \<lparr>ball_body = 6\<rparr>"
    using w(2) by (simp add: arena_def)
  have "\<exists>w'. reset c None w = Inr w' \<and>
        ball_velocity w' = Ball_setPosition_velocity c (ball_velocity w)"
    using ab bw
    by (simp add: reset_def resetPositions_def element_def Let_def ball_velocity_def
        Player_setPosition_def Ball_setPosition_def set_position_def set_velocity_def)
  with w(1) show ?thesis
    by blast
qed

section \<open>Unknown participants\<close>

text \<open>
  Claim C8. For an id that is the id of no player of the match, \<^verbatim>\<open>movePlayer\<close> and
  \<^verbatim>\<open>setPlayerReady\<close> write one line to the log and change nothing else of the match;
  neither raises (neither has a raising path in the source, and a history goes on
  after either call); \<^verbatim>\<open>setPlayerReady\<close> answers false.
\<close>

theorem unknown_player_ignored:
  assumes "sid \<notin> set (map socketId (players w))"
  shows "movePlayer sid d w =
      w\<lparr>logger := logger w @
         [(Info, ''movePlayer - got info about player not in game.'')]\<rparr> \<and>
    setPlayerReady sid w =
      (False,
       w\<lparr>logger := logger w @
          [(Info, ''setPlayerReady - got info about player not in game.'')]\<rparr>) \<and>
    exec c (MovePlayer sid d) w =
      Inr (w\<lparr>logger := logger w @
              [(Info, ''movePlayer - got info about player not in game.'')]\<rparr>) \<and>
    exec c (SetPlayerReady sid) w =
      Inr (w\<lparr>logger := logger w @
              [(Info, ''setPlayerReady - got info about player not in game.'')]\<rparr>)"
proof -
  have "find (\<lambda>p. socketId p = sid) (players w) = None"
    using assms by (auto simp: find_None_iff)
  then show ?thesis
    by (simp add: movePlayer_def setPlayerReady_def exec_def)
qed

theorem unknown_player_ignored_witness:
  "''p3'' \<notin> set (map socketId (players demo_world)) \<and>
   movePlayer ''p3'' (1, 0) demo_world =
      demo_world\<lparr>logger := logger demo_world @
        [(Info, ''movePlayer - got info about player not in game.'')]\<rparr> \<and>
   setPlayerReady ''p3'' demo_world =
      (False,
       demo_world\<lparr>logger := logger demo_world @
         [(Info, ''setPlayerReady - got info about player not in game.'')]\<rparr>)"
proof -
  have h: "''p3'' \<notin> set (map socketId (players demo_world))"
    by (simp add: demo_world_ids)
  from unknown_player_ignored [OF h, of "(1, 0)" demo_consts] h show ?thesis
    by simp
qed

section \<open>After the match\<close>

lemma step_events_no_bodies:
  "bodies (p2World w) = [] \<Longrightarrow> step_events evs w = Inr w"
  by (induction evs) (auto simp: engine_event_def split: EngineEvent.splits)

lemma onHeartbeat_no_bodies:
  assumes "bodies (p2World w) = []"
  shows "\<exists>w'. onHeartbeat c dt ms evs w = Inr w' \<and> bodies (p2World w') = [] \<and>
     goalEmitter w' = goalEmitter w"
  using assms by (simp add: onHeartbeat_def step_def Let_def step_events_no_bodies)

lemma heartbeats_no_bodies:
  "bodies (p2World w) = [] \<Longrightarrow>
   \<exists>w'. run c (heartbeats hs) w = Inr w' \<and> goalEmitter w' = goalEmitter w"
proof (induction hs arbitrary: w)
  case Nil
  then show ?case
    by (simp add: heartbeats_def)
next
  case (Cons h hs)
  obtain dt ms evs where h: "h = (dt, ms, evs)"
    by (cases h)
  from onHeartbeat_no_bodies [OF Cons.prems, of c dt ms evs] obtain w1
    where w1: "onHeartbeat c dt ms evs w = Inr w1" "bodies (p2World w1) = []"
      "goalEmitter w1 = goalEmitter w"
    by blast
  from Cons.IH [OF w1(2)] w1 h show ?case
    by (auto simp: heartbeats_def exec_def)
qed

lemma exec_cleared:
  assumes "arena w" "bodies (p2World w) = []"
  shows "\<exists>w'. exec c call w = Inr w' \<and> arena w' \<and> bodies (p2World w') = [] \<and>
     emitted (goalEmitter w') = emitted (goalEmitter w) \<and>
     notified (goalEmitter w') = notified (goalEmitter w)"
proof (cases call)
  case (Reset t)
  then show ?thesis
    using resetPositions_arena [OF assms(1), of c t] assms(2) by (auto simp: exec_def reset_def)
next
  case (Heartbeat dt ms evs)
  then show ?thesis
    using onHeartbeat_arena [OF assms(1), of c dt ms evs]
      onHeartbeat_no_bodies [OF assms(2), of c dt ms evs]
    by (auto simp: exec_def)
next
  case (MovePlayer sid d)
  then show ?thesis
    using assms
    by (auto simp: exec_def movePlayer_def arena_def map_body_update_found setDirection_def
        split: option.splits)
next
  case (SetPlayerReady sid)
  then show ?thesis
    using assms
    by (auto simp: exec_def setPlayerReady_def arena_def map_body_update_found Let_def
        split: option.splits)
next
  case Clear
  then show ?thesis
    using assms by (simp add: exec_def clear_def arena_def P2World_clear_def removeAllListeners_def)
next
  case (Subscribe l)
  then show ?thesis
    using assms by (simp add: exec_def arena_def TypedEvent_on_def)
qed

lemma run_cleared:
  "arena w \<Longrightarrow> bodies (p2World w) = [] \<Longrightarrow>
   \<exists>w'. run c calls w = Inr w' \<and>
     emitted (goalEmitter w') = emitted (goalEmitter w) \<and>
     notified (goalEmitter w') = notified (goalEmitter w)"
proof (induction calls arbitrary: w)
  case Nil
  then show ?case by simp
next
  case (Cons call calls)
  from exec_cleared [OF Cons.prems, of c call] obtain w1
    where w1: "exec c call w = Inr w1" "arena w1" "bodies (p2World w1) = []"
      "emitted (goalEmitter w1) = emitted (goalEmitter w)"
      "notified (goalEmitter w1) = notified (goalEmitter w)"
    by blast
  from Cons.IH [OF w1(2,3)] w1 show ?case by auto
qed

text \<open>
  Claim C9. After \<^verbatim>\<open>clear\<close>, in any state of a match, every sequence of heartbeats
  runs to its end without an exception, whatever the engine reports; no handler is
  registered at the end, no scoring event has been emitted since, and no handler has
  been notified. More generally, whatever calls follow a \<^verbatim>\<open>clear\<close> in a match
  history, none raises and no scoring event is emitted or delivered again.
\<close>

theorem no_goal_after_clear:
  "(\<exists>w'. run c (heartbeats hs) (clear w) = Inr w' \<and>
      listeners (goalEmitter w') = [] \<and>
      emitted (goalEmitter w') = emitted (goalEmitter w) \<and>
      notified (goalEmitter w') = notified (goalEmitter w)) \<and>
   (\<exists>w0 w'. history c p1 p2 calls = Inr w0 \<and> run c later (clear w0) = Inr w' \<and>
      emitted (goalEmitter w') = emitted (goalEmitter w0) \<and>
      notified (goalEmitter w') = notified (goalEmitter w0))"
proof -
  have "bodies (p2World (clear w)) = []"
    by (simp add: clear_def P2World_clear_def)
  from heartbeats_no_bodies [OF this, of c hs]
  have one: "\<exists>w'. run c (heartbeats hs) (clear w) = Inr w' \<and>
      listeners (goalEmitter w') = [] \<and>
      emitted (goalEmitter w') = emitted (goalEmitter w) \<and>
      notified (goalEmitter w') = notified (goalEmitter w)"
    by (auto simp: clear_def removeAllListeners_def)
  from history_arena [of c p1 p2 calls] obtain w0
    where w0: "history c p1 p2 calls = Inr w0" "arena w0"
    by blast
  have c0: "arena (clear w0)" "bodies (p2World (clear w0)) = []"
    "emitted (goalEmitter (clear w0)) = emitted (goalEmitter w0)"
    "notified (goalEmitter (clear w0)) = notified (goalEmitter w0)"
    using w0(2) by (simp_all add: clear_def arena_def P2World_clear_def removeAllListeners_def)
  from run_cleared [OF c0(1,2), of c later] c0(3,4) w0(1)
  have two: "\<exists>w0 w'. history c p1 p2 calls = Inr w0 \<and> run c later (clear w0) = Inr w' \<and>
      emitted (goalEmitter w') = emitted (goalEmitter w0) \<and>
      notified (goalEmitter w') = notified (goalEmitter w0)"
    by auto
  from one two show ?thesis by blast
qed

end
